theory Spec2Isabelle
  imports Complex_Main "HOL-Library.Multiset"
begin

section \<open>Python strings\<close>

text \<open>
  A Python \<open>str\<close> is modelled as a \<open>string\<close>: the list of the bytes of its UTF-8
  encoding (well-formed UTF-8 is assumed of every input). A substring, a prefix and a
  one-character ASCII separator are found in the bytes exactly where they are found in the
  code points, since no encoding of a code point occurs inside or across the encodings of
  others.
\<close>

definition startswith :: "string \<Rightarrow> string \<Rightarrow> bool" where
  \<comment> \<open>\<open>s.startswith(p)\<close>, written \<open>startswith p s\<close>\<close>
  "startswith p s = (take (length p) s = p)"

definition endswith :: "string \<Rightarrow> string \<Rightarrow> bool" where
  \<comment> \<open>\<open>s.endswith(p)\<close>, written \<open>endswith p s\<close>\<close>
  "endswith p s = startswith (rev p) (rev s)"

definition whitespace :: "string list" where
  \<comment> \<open>The characters that \<open>str.strip()\<close> removes (those for which \<open>str.isspace\<close> holds),
      each as its UTF-8 encoding: U+0009..U+000D, U+001C..U+0020, U+0085, U+00A0, U+1680,
      U+2000..U+200A, U+2028, U+2029, U+202F, U+205F, U+3000.\<close>
  "whitespace =
     map (\<lambda>c. [c]) [CHR 0x09, CHR 0x0A, CHR 0x0B, CHR 0x0C, CHR 0x0D,
                   CHR 0x1C, CHR 0x1D, CHR 0x1E, CHR 0x1F, CHR 0x20]
     @ [[CHR 0xC2, CHR 0x85], [CHR 0xC2, CHR 0xA0], [CHR 0xE1, CHR 0x9A, CHR 0x80]]
     @ map (\<lambda>c. [CHR 0xE2, CHR 0x80, c])
         [CHR 0x80, CHR 0x81, CHR 0x82, CHR 0x83, CHR 0x84, CHR 0x85, CHR 0x86, CHR 0x87,
          CHR 0x88, CHR 0x89, CHR 0x8A, CHR 0xA8, CHR 0xA9, CHR 0xAF]
     @ [[CHR 0xE2, CHR 0x81, CHR 0x9F], [CHR 0xE3, CHR 0x80, CHR 0x80]]"

function strip_prefixes :: "string list \<Rightarrow> string \<Rightarrow> string" where
  \<comment> \<open>removes from the front of \<open>s\<close>, one after the other, every leading string that is one
      of \<open>ws\<close>\<close>
  "strip_prefixes ws s =
     (case List.find (\<lambda>w. w \<noteq> [] \<and> startswith w s) ws of
        None \<Rightarrow> s
      | Some w \<Rightarrow> strip_prefixes ws (drop (length w) s))"
  by pat_completeness auto
termination
proof (relation "measure (\<lambda>(ws, s). length s)")
  show "wf (measure (\<lambda>(ws, s). length s))" by simp
next
  fix ws :: "string list" and s w :: string
  assume "List.find (\<lambda>w. w \<noteq> [] \<and> startswith w s) ws = Some w"
  then have "w \<noteq> []" and "take (length w) s = w"
    by (auto simp: find_Some_iff startswith_def)
  then have "s \<noteq> []" by auto
  with \<open>w \<noteq> []\<close> show "((ws, drop (length w) s), (ws, s)) \<in> measure (\<lambda>(ws, s). length s)"
    by simp
qed

definition lstrip :: "string \<Rightarrow> string" where
  \<comment> \<open>\<open>s.lstrip()\<close>\<close>
  "lstrip s = strip_prefixes whitespace s"

definition rstrip :: "string \<Rightarrow> string" where
  \<comment> \<open>\<open>s.rstrip()\<close>: the same from the end\<close>
  "rstrip s = rev (strip_prefixes (map rev whitespace) (rev s))"

definition strip :: "string \<Rightarrow> string" where
  \<comment> \<open>\<open>s.strip()\<close>\<close>
  "strip s = rstrip (lstrip s)"

fun contains :: "string \<Rightarrow> string \<Rightarrow> bool" where
  \<comment> \<open>\<open>sub in s\<close> on two strings, written \<open>contains sub s\<close>\<close>
  "contains sub [] = (sub = [])"
| "contains sub (c # cs) = (startswith sub (c # cs) \<or> contains sub cs)"

fun split_field :: "char \<Rightarrow> string \<Rightarrow> string \<Rightarrow> string list" where
  \<comment> \<open>the loop of \<open>s.split(sep)\<close> for a one-character separator; the second argument is the
      field being read\<close>
  "split_field sep cur [] = [cur]"
| "split_field sep cur (c # cs) =
     (if c = sep then cur # split_field sep [] cs else split_field sep (cur @ [c]) cs)"

definition split :: "char \<Rightarrow> string \<Rightarrow> string list" where
  \<comment> \<open>\<open>s.split(sep)\<close>\<close>
  "split sep s = split_field sep [] s"

function replace :: "string \<Rightarrow> string \<Rightarrow> string \<Rightarrow> string" where
  \<comment> \<open>\<open>s.replace(old, new)\<close> for a non-empty \<open>old\<close> (the source only replaces \<open>'**'\<close> and
      \<open>':'\<close>): every occurrence, left to right, without overlap\<close>
  "replace old new [] = []"
| "replace old new (c # cs) =
     (if old \<noteq> [] \<and> startswith old (c # cs)
      then new @ replace old new (drop (length old) (c # cs))
      else c # replace old new cs)"
  by pat_completeness auto
termination
  by (relation "measure (\<lambda>(old, new, s). length s)") (auto simp: neq_Nil_conv)

section \<open>Values and errors\<close>

datatype error =
    ValueError string
  | IndexError
  | KeyError string
  | TypeError
  | AttributeError
  | ZeroDivisionError
  | OverflowError
  | OtherError string
    \<comment> \<open>an exception of another class, by the name of the class\<close>

text \<open>
  A \<open>ValueError\<close> carries its message. For the ones that Python or plotly raise, the
  message is known here by its first words.
\<close>

text \<open>
  A Python number: \<open>self.sample_rate = 200\<close> stores an \<open>int\<close>, \<open>float(...)\<close> yields a
  \<open>float\<close>. The type \<open>'f\<close> stands for the floats; the built-in \<open>float\<close> and the formatting
  of a float are parameters of the functions that use them.
\<close>

datatype 'f number = PyInt int | PyFloat 'f

section \<open>The plotter object\<close>

text \<open>
  A data frame is known here by its column labels; its cells (type \<open>'d\<close>) are only passed on
  to the figure.
\<close>

record 'd dataframe =
  columns :: "string list"
  cells :: 'd

record ('f, 'd) EEGPlotter =
  csv_file :: string
  data :: "'d dataframe option"
  channels :: "string list"
  sample_rate :: "'f number"

definition init :: "string \<Rightarrow> ('f, 'd) EEGPlotter" where
  \<comment> \<open>\<open>EEGPlotter.__init__\<close>\<close>
  "init file = \<lparr> csv_file = file, data = None, channels = [], sample_rate = PyInt 200 \<rparr>"

section \<open>parse_eeg_csv\<close>

definition is_header :: "string \<Rightarrow> bool" where
  \<comment> \<open>\<open>line.startswith('Time,') or line.startswith('Time\t')\<close>, on the stripped line\<close>
  "is_header line =
     (startswith ''Time,'' line \<or> startswith (''Time'' @ [CHR 0x09]) line)"

definition nth_opt :: "'a list \<Rightarrow> nat \<Rightarrow> 'a option" where
  \<comment> \<open>\<open>xs[i]\<close> for \<open>i \<ge> 0\<close>; \<open>None\<close> is the IndexError\<close>
  "nth_opt xs i = (if i < length xs then Some (xs ! i) else None)"

type_synonym 'f metadata = "string \<rightharpoonup> 'f number"

definition read_rate ::
  "(string \<Rightarrow> 'f option) \<Rightarrow> string \<Rightarrow> 'f number \<times> 'f metadata \<Rightarrow> 'f number \<times> 'f metadata"
where
  \<comment> \<open>Lines 36-41: the \<open>try\<close> block on one stripped line. \<open>to_float\<close> is Python's built-in
      \<open>float\<close> on a string, \<open>None\<close> when it raises. The bare \<open>except: pass\<close> turns the
      IndexError of \<open>[1]\<close> and the error of \<open>float\<close> into "nothing changes".\<close>
  "read_rate to_float line st =
     (if contains ''Sample_Frequency_(Hz)'' line then
        (case nth_opt (split CHR '','' line) 1 of
           None \<Rightarrow> st
         | Some field \<Rightarrow>
             (case to_float field of
                None \<Rightarrow> st
              | Some v \<Rightarrow> (PyFloat v, (snd st)(''sample_rate'' \<mapsto> PyFloat v))))
      else st)"

fun scan_lines ::
  "(string \<Rightarrow> 'f option) \<Rightarrow> int \<Rightarrow> string list \<Rightarrow> 'f number \<times> 'f metadata
     \<Rightarrow> int \<times> 'f number \<times> 'f metadata"
where
  \<comment> \<open>Lines 30-46: the \<open>for i, line in enumerate(lines)\<close> loop from index \<open>i\<close> on. The result is
      \<open>header_line_idx\<close> (\<open>-1\<close> when the loop ends without \<open>break\<close>), \<open>self.sample_rate\<close> and
      \<open>metadata\<close>.\<close>
  "scan_lines to_float i [] st = (- 1, st)"
| "scan_lines to_float i (raw # rest) st =
     (let line = strip raw;
          st' = read_rate to_float line st
      in if is_header line then (i, st') else scan_lines to_float (i + 1) rest st')"

definition clean_column :: "string \<Rightarrow> string" where
  \<comment> \<open>Line 55: \<open>col.replace('**', '').replace(':', '_').strip()\<close>\<close>
  "clean_column col = strip (replace '':'' ''_'' (replace ''**'' [] col))"

definition exclude_cols :: "string list" where
  "exclude_cols = [''Trigger'', ''Time_Offset'', ''ADC_Status'', ''ADC_Sequence'',
                   ''Event'', ''X3_'', ''Comments'', ''CMF'']"

definition keep_column :: "string \<Rightarrow> bool" where
  \<comment> \<open>Line 63: \<open>col != 'Time' and col not in exclude_cols and col.strip()\<close>; \<open>not in\<close> on a
      list compares whole elements, and a string is true when it is not empty\<close>
  "keep_column col = (col \<noteq> ''Time'' \<and> \<not> List.member exclude_cols col \<and> strip col \<noteq> [])"

definition no_header_message :: string where
  "no_header_message =
     ''Could not find header line starting with '' @ [CHR 0x27] @ ''Time'' @ [CHR 0x27]"

definition parse_eeg_csv ::
  "(string \<Rightarrow> 'f option) \<Rightarrow> (string \<Rightarrow> int \<Rightarrow> error + 'd dataframe) \<Rightarrow> string list
     \<Rightarrow> ('f, 'd) EEGPlotter \<Rightarrow> ('f, 'd) EEGPlotter \<times> (error + 'f metadata)"
where
  \<comment> \<open>Lines 20-66. \<open>lines\<close> is what \<open>f.readlines()\<close> returned for \<open>self.csv_file\<close>;
      \<open>read_csv file k\<close> is \<open>pd.read_csv(file, skiprows=k, low_memory=False)\<close>, with
      the exception it raises, if any. The result
      is the object after the call, and the exception raised or the dictionary returned.\<close>
  "parse_eeg_csv to_float read_csv lines self =
     (case scan_lines to_float 0 lines (sample_rate self, Map.empty) of
        (header_line_idx, rate, metadata) \<Rightarrow>
          (let self1 = self\<lparr> sample_rate := rate \<rparr> in
           if header_line_idx = - 1 then (self1, Inl (ValueError no_header_message))
           else
             (case read_csv (csv_file self1) header_line_idx of
                Inl e \<Rightarrow> (self1, Inl e)
              | Inr frame \<Rightarrow>
                  (let frame' = frame\<lparr> columns := map clean_column (columns frame) \<rparr>;
                       self2 = self1\<lparr> data := Some frame' \<rparr>;
                       self3 = self2\<lparr> channels := filter keep_column (columns frame') \<rparr>
                   in (self3, Inr metadata)))))"

section \<open>categorize_channels\<close>

record categories =
  eeg :: "string list"
  ecg :: "string list"
  reference :: "string list"

definition is_ocular :: "string \<Rightarrow> bool" where
  \<comment> \<open>Line 280: \<open>any(x in channel for x in ['X1_LEOG', 'X2_REOG'])\<close>\<close>
  "is_ocular channel = list_ex (\<lambda>x. contains x channel) [''X1_LEOG'', ''X2_REOG'']"

fun categorize_loop :: "string list \<Rightarrow> categories \<Rightarrow> categories" where
  \<comment> \<open>Lines 279-285: the loop over \<open>self.channels\<close>, the three lists as the state\<close>
  "categorize_loop [] acc = acc"
| "categorize_loop (channel # rest) acc =
     categorize_loop rest
       (if is_ocular channel then acc\<lparr> ecg := ecg acc @ [channel] \<rparr>
        else if contains ''CM'' channel then acc\<lparr> reference := reference acc @ [channel] \<rparr>
        else acc\<lparr> eeg := eeg acc @ [channel] \<rparr>)"

definition categorize_channels :: "('f, 'd) EEGPlotter \<Rightarrow> categories" where
  \<comment> \<open>Lines 274-291\<close>
  "categorize_channels self =
     categorize_loop (channels self) \<lparr> eeg = [], ecg = [], reference = [] \<rparr>"

section \<open>create_interactive_plot\<close>

text \<open>
  The figure is known here by what the source puts into it panel by panel: the subplot
  titles, the traces, the y-axis styles, the canvas height and the x-axes that follow the
  first one. The title text and the constant parts of \<open>update_layout\<close> (buttons, drag mode,
  colours of the canvas) are left out.
\<close>

record trace =
  name :: string
  color :: string
  row :: nat

record yaxis =
  title_text :: string
  gridcolor :: string
  zerolinecolor :: string

record figure =
  rows :: nat
  subplot_titles :: "string list"
  traces :: "trace list"
  yaxes :: "(nat \<times> yaxis) list"
  height :: nat
  matched_xaxes :: "nat list"
  time_axis_row :: nat

definition mu :: string where
  \<comment> \<open>the micro sign U+03BC of the source's literals, in UTF-8\<close>
  "mu = [CHR 0xCE, CHR 0xBC]"

definition slice_to :: "'a list \<Rightarrow> int \<Rightarrow> 'a list" where
  \<comment> \<open>\<open>xs[:n]\<close>: a negative \<open>n\<close> counts from the end\<close>
  "slice_to xs n = (if n < 0 then take (nat (int (length xs) + n)) xs else take (nat n) xs)"

definition ordered_channels :: "categories \<Rightarrow> string list" where
  \<comment> \<open>Lines 75-77\<close>
  "ordered_channels cats = eeg cats @ ecg cats @ reference cats"

definition channels_to_plot :: "int option \<Rightarrow> string list \<Rightarrow> string list" where
  \<comment> \<open>Line 79: \<open>ordered_channels[:max_channels] if max_channels else ordered_channels\<close>;
      \<open>None\<close> and \<open>0\<close> are the values of \<open>max_channels\<close> that are false\<close>
  "channels_to_plot max_channels ordered =
     (case max_channels of
        None \<Rightarrow> ordered
      | Some n \<Rightarrow> if n \<noteq> 0 then slice_to ordered n else ordered)"

definition subplot_title :: "categories \<Rightarrow> string \<Rightarrow> string" where
  \<comment> \<open>Lines 88-93\<close>
  "subplot_title cats ch =
     (if List.member (ecg cats) ch then ch @ '' (mV) - ECG''
      else if List.member (reference cats) ch then ch @ '' (Reference)''
      else ch @ '' ('' @ mu @ ''V) - EEG'')"

definition yaxis_style :: "categories \<Rightarrow> string \<Rightarrow> yaxis" where
  \<comment> \<open>Lines 128-160\<close>
  "yaxis_style cats channel =
     (if List.member (ecg cats) channel then
        \<lparr> title_text = ''mV'', gridcolor = ''lightcoral'', zerolinecolor = ''black'' \<rparr>
      else if List.member (reference cats) channel then
        \<lparr> title_text = mu @ ''V (Ref)'', gridcolor = ''lightgray'', zerolinecolor = ''black'' \<rparr>
      else
        \<lparr> title_text = mu @ ''V'', gridcolor = ''lightblue'', zerolinecolor = ''blue'' \<rparr>)"

definition panel_trace :: "string list \<Rightarrow> nat \<times> string \<Rightarrow> trace" where
  \<comment> \<open>Lines 110-125: the trace added for the channel at index \<open>i\<close>, written
      \<open>panel_trace colors (i, channel)\<close>: \<open>color = colors[i % len(colors)]\<close>, \<open>name=channel\<close>,
      \<open>row=i+1\<close>\<close>
  "panel_trace colors p =
     \<lparr> name = snd p, color = colors ! (fst p mod length colors), row = fst p + 1 \<rparr>"

definition invalid_value_message :: string where
  \<comment> \<open>plotly's message when a property of a trace is given a value it does not accept\<close>
  "invalid_value_message = ''Invalid value of type''"

fun add_traces ::
  "string list \<Rightarrow> 'd dataframe option \<Rightarrow> categories \<Rightarrow> nat \<Rightarrow> string list \<Rightarrow> figure
     \<Rightarrow> error + figure"
where
  \<comment> \<open>Lines 108-160: \<open>for i, channel in enumerate(channels_to_plot)\<close> from index \<open>i\<close> on.
      \<open>self.data.columns\<close> fails on \<open>None\<close>, \<open>i % len(colors)\<close> on an empty palette and
      \<open>self.data['Time']\<close> on a frame without that column. A label that two columns bear
      selects a frame, not a series, and \<open>go.Scatter\<close> refuses a frame as \<open>x\<close> or \<open>y\<close>.\<close>
  "add_traces colors d cats i [] fig = Inr fig"
| "add_traces colors d cats i (channel # rest) fig =
     (case d of
        None \<Rightarrow> Inl AttributeError
      | Some frame \<Rightarrow>
          if List.member (columns frame) channel then
            (if colors = [] then Inl ZeroDivisionError
             else if \<not> List.member (columns frame) ''Time'' then Inl (KeyError ''Time'')
             else if 1 < count_list (columns frame) ''Time''
                       \<or> 1 < count_list (columns frame) channel
               then Inl (ValueError invalid_value_message)
             else
               (let fig1 = fig\<lparr> traces := traces fig @ [panel_trace colors (i, channel)] \<rparr>;
                    fig2 = fig1\<lparr> yaxes := yaxes fig1 @ [(i + 1, yaxis_style cats channel)] \<rparr>
                in add_traces colors d cats (i + 1) rest fig2))
          else add_traces colors d cats (i + 1) rest fig)"

definition no_channels_message :: string where
  "no_channels_message = ''No valid channels found to plot''"

definition spacing_message :: string where
  \<comment> \<open>plotly's message when the vertical spacing is too large for the number of rows\<close>
  "spacing_message = ''Vertical spacing cannot be greater than''"

definition make_subplots :: "nat \<Rightarrow> error option" where
  \<comment> \<open>What \<open>plotly.subplots.make_subplots(rows=n, cols=1, vertical_spacing=0.015, ...)\<close>
      raises, if anything: a ValueError when there is more than one row and
      \<open>0.015 > 1 / (n - 1)\<close>, which is from 68 rows on.\<close>
  "make_subplots n =
     (if 1 < n \<and> 1000 < 15 * (n - 1) then Some (ValueError spacing_message) else None)"

definition create_interactive_plot ::
  "string list \<Rightarrow> string list \<Rightarrow> int option \<Rightarrow> ('f, 'd) EEGPlotter \<Rightarrow> error + figure"
where
  \<comment> \<open>Lines 68-242. \<open>Set1\<close> and \<open>Set2\<close> are \<open>px.colors.qualitative.Set1\<close> and \<open>.Set2\<close>. The
      object is not changed.\<close>
  "create_interactive_plot Set1 Set2 max_channels self =
     (let channel_categories = categorize_channels self;
          to_plot = channels_to_plot max_channels (ordered_channels channel_categories);
          n_channels = length to_plot
      in if n_channels = 0 then Inl (ValueError no_channels_message)
         else
           (case make_subplots n_channels of
              Some e \<Rightarrow> Inl e
            | None \<Rightarrow>
                (case add_traces (Set1 @ Set2) (data self) channel_categories 0 to_plot
                        \<lparr> rows = n_channels,
                          subplot_titles = map (subplot_title channel_categories) to_plot,
                          traces = [], yaxes = [], height = 0, matched_xaxes = [],
                          time_axis_row = 0 \<rparr> of
                   Inl e \<Rightarrow> Inl e
                 | Inr fig \<Rightarrow>
                     Inr (fig\<lparr> height := 150 * n_channels + 100,
                               matched_xaxes := [2 ..< n_channels + 1],
                               time_axis_row := n_channels \<rparr>))))"

definition plotly_Set1 :: "string list" where
  \<comment> \<open>the value of \<open>px.colors.qualitative.Set1\<close> in plotly (not part of this repository)\<close>
  "plotly_Set1 = [''rgb(228,26,28)'', ''rgb(55,126,184)'', ''rgb(77,175,74)'',
                  ''rgb(152,78,163)'', ''rgb(255,127,0)'', ''rgb(255,255,51)'',
                  ''rgb(166,86,40)'', ''rgb(247,129,191)'', ''rgb(153,153,153)'']"

definition plotly_Set2 :: "string list" where
  \<comment> \<open>the value of \<open>px.colors.qualitative.Set2\<close> in plotly (not part of this repository)\<close>
  "plotly_Set2 = [''rgb(102,194,165)'', ''rgb(252,141,98)'', ''rgb(141,160,203)'',
                  ''rgb(231,138,195)'', ''rgb(166,216,84)'', ''rgb(255,217,47)'',
                  ''rgb(229,196,148)'', ''rgb(179,179,179)'']"

section \<open>update_output\<close>

text \<open>
  The callback receives the \<open>selectedData\<close> property of the graph as decoded JSON: \<open>None\<close>
  or a dictionary. The values inside the dictionary are arbitrary JSON values; a
  dictionary is the list of its items, with distinct keys.
\<close>

datatype 'f json =
    JNone
  | JBool bool
  | JNum "'f number"
  | JStr string
  | JList "'f json list"
  | JDict "(string \<times> 'f json) list"

definition en_dash :: string where
  \<comment> \<open>U+2013 in UTF-8\<close>
  "en_dash = [CHR 0xE2, CHR 0x80, CHR 0x93]"

fun has_key :: "string \<Rightarrow> 'f json \<Rightarrow> error + bool" where
  \<comment> \<open>\<open>k in v\<close> for a string \<open>k\<close>: a key of a dictionary, an element of a list, a substring
      of a string; the other values are not containers\<close>
  "has_key k (JDict items) = Inr (List.member (map fst items) k)"
| "has_key k (JList xs) = Inr (List.member xs (JStr k))"
| "has_key k (JStr s) = Inr (contains k s)"
| "has_key k v = Inl TypeError"

fun getitem :: "'f json \<Rightarrow> string \<Rightarrow> error + 'f json" where
  \<comment> \<open>\<open>v[k]\<close> for a string \<open>k\<close>\<close>
  "getitem (JDict items) k = (case map_of items k of None \<Rightarrow> Inl (KeyError k) | Some v \<Rightarrow> Inr v)"
| "getitem v k = Inl TypeError"

definition is_continuation :: "char \<Rightarrow> bool" where
  \<comment> \<open>a byte of a UTF-8 encoding other than its first\<close>
  "is_continuation c = (128 \<le> (of_char c :: nat) \<and> (of_char c :: nat) < 192)"

function utf8_chars :: "string \<Rightarrow> string list" where
  \<comment> \<open>the characters of a string, each as its UTF-8 encoding\<close>
  "utf8_chars [] = []"
| "utf8_chars (c # cs) =
     (c # takeWhile is_continuation cs) # utf8_chars (dropWhile is_continuation cs)"
  by pat_completeness auto
termination
  by (relation "measure length") (auto simp: length_dropWhile_le less_Suc_eq_le)

definition not_enough_message :: string where
  "not_enough_message = ''not enough values to unpack''"

definition too_many_message :: string where
  "too_many_message = ''too many values to unpack''"

definition format_code_message :: string where
  "format_code_message = ''Unknown format code''"

definition unpack_pair :: "'a list \<Rightarrow> error + 'a \<times> 'a" where
  \<comment> \<open>\<open>a, b = xs\<close> on the items of an iterable\<close>
  "unpack_pair xs =
     (case xs of
        [a, b] \<Rightarrow> Inr (a, b)
      | _ \<Rightarrow> Inl (ValueError (if length xs < 2 then not_enough_message
                               else too_many_message)))"

fun unpack2 :: "'f json \<Rightarrow> error + 'f json \<times> 'f json" where
  \<comment> \<open>\<open>xmin, xmax = v\<close>: the items of a list, the keys of a dictionary or the characters of
      a string; the other values are not iterable\<close>
  "unpack2 (JList xs) = unpack_pair xs"
| "unpack2 (JDict items) = unpack_pair (map (\<lambda>kv. JStr (fst kv)) items)"
| "unpack2 (JStr s) = unpack_pair (map JStr (utf8_chars s))"
| "unpack2 v = Inl TypeError"

fun format_2f :: "('f number \<Rightarrow> string option) \<Rightarrow> 'f json \<Rightarrow> error + string" where
  \<comment> \<open>\<open>format(v, '.2f')\<close>. \<open>fmt\<close> is that formatting on the numbers, \<open>None\<close> when it raises
      OverflowError (an \<open>int\<close> too large for a \<open>float\<close>); a \<open>bool\<close> is an \<open>int\<close>.\<close>
  "format_2f fmt (JNum x) = (case fmt x of None \<Rightarrow> Inl OverflowError | Some s \<Rightarrow> Inr s)"
| "format_2f fmt (JBool b) =
     (case fmt (PyInt (if b then 1 else 0)) of None \<Rightarrow> Inl OverflowError | Some s \<Rightarrow> Inr s)"
| "format_2f fmt (JStr s) = Inl (ValueError format_code_message)"
| "format_2f fmt v = Inl TypeError"

definition update_output ::
  "('f number \<Rightarrow> string option) \<Rightarrow> (string \<times> 'f json) list option \<Rightarrow> error + string option"
where
  \<comment> \<open>Lines 263-270. \<open>Inr None\<close> is the \<open>None\<close> a Python function returns when it ends
      without \<open>return\<close>.\<close>
  "update_output fmt selected_data =
     (case selected_data of
        None \<Rightarrow> Inr (Some ''No region selected.'')
      | Some [] \<Rightarrow> Inr (Some ''No region selected.'')
      | Some items \<Rightarrow>
          if \<not> List.member (map fst items) ''range'' then Inr None
          else
            (case getitem (JDict items) ''range'' of
               Inl e \<Rightarrow> Inl e
             | Inr r \<Rightarrow>
                 (case has_key ''x'' r of
                    Inl e \<Rightarrow> Inl e
                  | Inr False \<Rightarrow> Inr None
                  | Inr True \<Rightarrow>
                      (case getitem r ''x'' of
                         Inl e \<Rightarrow> Inl e
                       | Inr x \<Rightarrow>
                           (case unpack2 x of
                              Inl e \<Rightarrow> Inl e
                            | Inr (xmin, xmax) \<Rightarrow>
                                (case format_2f fmt xmin of
                                   Inl e \<Rightarrow> Inl e
                                 | Inr a \<Rightarrow>
                                     (case format_2f fmt xmax of
                                        Inl e \<Rightarrow> Inl e
                                      | Inr b \<Rightarrow>
                                          Inr (Some (''Selected time window: '' @ a @ en_dash
                                                      @ b @ '' seconds'')))))))))"

section \<open>Facts about the string operations and the scan\<close>

lemma startswith_iff: "startswith p s = (\<exists>rest. s = p @ rest)"
  unfolding startswith_def by (metis append_eq_conv_conj append_take_drop_id)

lemma contains_iff: "contains sub s = (\<exists>a b. s = a @ sub @ b)"
proof (induction s)
  case Nil
  then show ?case by auto
next
  case (Cons c cs)
  show ?case
  proof
    assume "contains sub (c # cs)"
    then consider "startswith sub (c # cs)" | "contains sub cs" by auto
    then show "\<exists>a b. c # cs = a @ sub @ b"
    proof cases
      case 1
      then obtain r where "c # cs = sub @ r" by (auto simp: startswith_iff)
      then have "c # cs = [] @ sub @ r" by simp
      then show ?thesis by blast
    next
      case 2
      then obtain a b where "cs = a @ sub @ b" using Cons.IH by auto
      then have "c # cs = (c # a) @ sub @ b" by simp
      then show ?thesis by blast
    qed
  next
    assume "\<exists>a b. c # cs = a @ sub @ b"
    then obtain a b where ab: "c # cs = a @ sub @ b" by auto
    show "contains sub (c # cs)"
    proof (cases a)
      case Nil
      then have "startswith sub (c # cs)" using ab unfolding startswith_iff by auto
      then show ?thesis by simp
    next
      case (Cons x a')
      then have "cs = a' @ sub @ b" using ab by simp
      then show ?thesis using Cons.IH by auto
    qed
  qed
qed

declare strip_prefixes.simps [simp del]

lemmas strip_eval = strip_def lstrip_def rstrip_def whitespace_def startswith_def
  strip_prefixes.simps

lemma startswith_append: "startswith w x \<Longrightarrow> startswith w (x @ y)"
  by (auto simp: startswith_iff)

lemma strip_prefixes_removes:
  "\<exists>ts. set ts \<subseteq> set ws \<and> s = concat ts @ strip_prefixes ws s"
proof (induction ws s rule: strip_prefixes.induct)
  case (1 ws s)
  show ?case
  proof (cases "List.find (\<lambda>w. w \<noteq> [] \<and> startswith w s) ws")
    case None
    then have "strip_prefixes ws s = s" by (simp add: strip_prefixes.simps[of ws s])
    then have "set [] \<subseteq> set ws \<and> s = concat [] @ strip_prefixes ws s" by simp
    then show ?thesis by blast
  next
    case (Some w)
    then have w: "w \<in> set ws" and p: "startswith w s"
      by (auto simp: find_Some_iff)
    from p have s: "s = w @ drop (length w) s"
      by (metis append_take_drop_id startswith_def)
    from "1.IH"[OF Some] obtain ts where
      ts: "set ts \<subseteq> set ws"
        "drop (length w) s = concat ts @ strip_prefixes ws (drop (length w) s)"
      by blast
    have r: "strip_prefixes ws s = strip_prefixes ws (drop (length w) s)"
      using Some by (simp add: strip_prefixes.simps[of ws s])
    have "set (w # ts) \<subseteq> set ws \<and> s = concat (w # ts) @ strip_prefixes ws s"
      using w ts s r by (metis append.assoc concat.simps(2) insert_subset list.simps(15))
    then show ?thesis by blast
  qed
qed

lemma strip_prefixes_done:
  "w \<in> set ws \<Longrightarrow> w \<noteq> [] \<Longrightarrow> \<not> startswith w (strip_prefixes ws s)"
proof (induction ws s rule: strip_prefixes.induct)
  case (1 ws s)
  show ?case
  proof (cases "List.find (\<lambda>w. w \<noteq> [] \<and> startswith w s) ws")
    case None
    then have "strip_prefixes ws s = s" by (simp add: strip_prefixes.simps[of ws s])
    moreover from None "1.prems" have "\<not> startswith w s" by (auto simp: find_None_iff)
    ultimately show ?thesis by simp
  next
    case (Some v)
    then have "strip_prefixes ws s = strip_prefixes ws (drop (length v) s)"
      by (simp add: strip_prefixes.simps[of ws s])
    then show ?thesis using "1.IH"[OF Some "1.prems"] by simp
  qed
qed

lemma whitespace_nonempty: "w \<in> set whitespace \<Longrightarrow> w \<noteq> []"
  by (auto simp: whitespace_def)

lemma lstrip_spec:
  "\<exists>a. set a \<subseteq> set whitespace \<and> s = concat a @ lstrip s"
  "w \<in> set whitespace \<Longrightarrow> \<not> startswith w (lstrip s)"
  unfolding lstrip_def
  using strip_prefixes_removes[of whitespace s] strip_prefixes_done whitespace_nonempty
  by blast+

lemma rstrip_spec:
  "\<exists>b. set b \<subseteq> set whitespace \<and> s = rstrip s @ concat b"
  "w \<in> set whitespace \<Longrightarrow> \<not> endswith w (rstrip s)"
proof -
  obtain ts where ts: "set ts \<subseteq> set (map rev whitespace)"
    and r: "rev s = concat ts @ strip_prefixes (map rev whitespace) (rev s)"
    using strip_prefixes_removes by blast
  have "rev (rev s) = rstrip s @ rev (concat ts)"
    by (subst r) (simp add: rstrip_def)
  then have "s = rstrip s @ concat (map rev (rev ts))"
    by (simp add: rev_concat)
  moreover have "set (map rev (rev ts)) \<subseteq> set whitespace"
    using ts by auto
  ultimately show "\<exists>b. set b \<subseteq> set whitespace \<and> s = rstrip s @ concat b" by blast
next
  assume w: "w \<in> set whitespace"
  then have "rev w \<in> set (map rev whitespace)" and "rev w \<noteq> []"
    using whitespace_nonempty by auto
  then have "\<not> startswith (rev w) (strip_prefixes (map rev whitespace) (rev s))"
    by (rule strip_prefixes_done)
  then show "\<not> endswith w (rstrip s)"
    by (simp add: endswith_def rstrip_def)
qed

lemma strip_spec:
  "\<exists>a b. set a \<subseteq> set whitespace \<and> set b \<subseteq> set whitespace
         \<and> s = concat a @ strip s @ concat b"
  "w \<in> set whitespace \<Longrightarrow> \<not> startswith w (strip s)"
  "w \<in> set whitespace \<Longrightarrow> \<not> endswith w (strip s)"
proof -
  obtain a where a: "set a \<subseteq> set whitespace" "s = concat a @ lstrip s"
    using lstrip_spec(1) by blast
  obtain b where b: "set b \<subseteq> set whitespace" "lstrip s = strip s @ concat b"
    using rstrip_spec(1)[of "lstrip s"] unfolding strip_def by blast
  from a b have "s = concat a @ strip s @ concat b" by simp
  with a(1) b(1) show "\<exists>a b. set a \<subseteq> set whitespace \<and> set b \<subseteq> set whitespace
         \<and> s = concat a @ strip s @ concat b" by blast
  show "\<not> startswith w (strip s)" if "w \<in> set whitespace"
  proof
    assume "startswith w (strip s)"
    then have "startswith w (lstrip s)" using b(2) startswith_append by metis
    with that show False using lstrip_spec(2) by blast
  qed
  show "\<not> endswith w (strip s)" if "w \<in> set whitespace"
    using that rstrip_spec(2) by (simp add: strip_def)
qed

lemma strip_decompose: "\<exists>a b. s = a @ strip s @ b"
  using strip_spec(1)[of s] by blast

lemma contains_strip: "contains sub (strip s) \<Longrightarrow> contains sub s"
proof -
  assume "contains sub (strip s)"
  then obtain a b where ab: "strip s = a @ sub @ b" by (auto simp: contains_iff)
  obtain p q where "s = p @ strip s @ q" using strip_decompose by blast
  then have "s = (p @ a) @ sub @ (b @ q)" using ab by simp
  then show ?thesis unfolding contains_iff by blast
qed

lemma is_header_iff:
  "is_header s = (\<exists>c rest. (c = CHR '','' \<or> c = CHR 0x09) \<and> s = ''Time'' @ c # rest)"
  unfolding is_header_def startswith_iff by auto

lemma scan_lines_index:
  "fst (scan_lines to_float i ls st) =
     (if \<exists>l\<in>set ls. is_header (strip l)
      then i + int (length (takeWhile (\<lambda>l. \<not> is_header (strip l)) ls)) else - 1)"
  by (induction ls arbitrary: i st) (auto simp: Let_def)

lemma scan_lines_no_header:
  "\<forall>l\<in>set ls. \<not> is_header (strip l) \<Longrightarrow>
   scan_lines to_float i ls st = (- 1, fold (\<lambda>raw. read_rate to_float (strip raw)) ls st)"
  by (induction ls arbitrary: i st) (auto simp: Let_def)

lemma scan_lines_no_label:
  "\<forall>l\<in>set ls. \<not> contains ''Sample_Frequency_(Hz)'' l \<Longrightarrow>
   snd (scan_lines to_float i ls st) = st"
proof (induction ls arbitrary: i st)
  case Nil
  then show ?case by simp
next
  case (Cons raw rest)
  then have "\<not> contains ''Sample_Frequency_(Hz)'' (strip raw)"
    using contains_strip by auto
  then have "read_rate to_float (strip raw) st = st" by (simp add: read_rate_def)
  then show ?case using Cons by (simp add: Let_def)
qed

lemma takeWhile_first:
  "(length (takeWhile (\<lambda>x. \<not> P x) xs) = k \<and> k < length xs) =
   (k < length xs \<and> P (xs ! k) \<and> (\<forall>j<k. \<not> P (xs ! j)))"
proof (induction xs arbitrary: k)
  case Nil
  then show ?case by simp
next
  case (Cons x xs)
  show ?case
  proof (cases k)
    case 0
    then show ?thesis by auto
  next
    case (Suc k')
    have "(\<forall>j<Suc k'. \<not> P ((x # xs) ! j)) = (\<not> P x \<and> (\<forall>j<k'. \<not> P (xs ! j)))"
      by (auto simp: All_less_Suc2)
    then show ?thesis using Cons.IH[of k'] Suc by auto
  qed
qed

section \<open>Facts about the classification and the loaded columns\<close>

lemma categorize_loop_ecg:
  "ecg (categorize_loop chs acc) = ecg acc @ filter is_ocular chs"
  by (induction chs arbitrary: acc) auto

lemma categorize_loop_reference:
  "reference (categorize_loop chs acc) =
     reference acc @ filter (\<lambda>c. \<not> is_ocular c \<and> contains ''CM'' c) chs"
  by (induction chs arbitrary: acc) auto

lemma categorize_loop_eeg:
  "eeg (categorize_loop chs acc) =
     eeg acc @ filter (\<lambda>c. \<not> is_ocular c \<and> \<not> contains ''CM'' c) chs"
  by (induction chs arbitrary: acc) auto

lemma is_ocular_eq: "is_ocular = (\<lambda>c. contains ''X1_LEOG'' c \<or> contains ''X2_REOG'' c)"
  by (rule ext) (simp add: is_ocular_def)

lemma takeWhile_ex: "(\<exists>x\<in>set xs. P x) = (length (takeWhile (\<lambda>x. \<not> P x) xs) < length xs)"
  by (induction xs) auto

lemma mset_three_filters:
  "mset (filter (\<lambda>c. \<not> p c \<and> \<not> q c) xs) + mset (filter p xs)
     + mset (filter (\<lambda>c. \<not> p c \<and> q c) xs) = mset xs"
  by (induction xs) auto

lemma categorize_channels_lists:
  "ecg (categorize_channels self) = filter is_ocular (channels self)"
  "reference (categorize_channels self) =
     filter (\<lambda>c. \<not> is_ocular c \<and> contains ''CM'' c) (channels self)"
  "eeg (categorize_channels self) =
     filter (\<lambda>c. \<not> is_ocular c \<and> \<not> contains ''CM'' c) (channels self)"
  by (simp_all add: categorize_channels_def categorize_loop_ecg
      categorize_loop_reference categorize_loop_eeg)

lemma set_ordered_channels:
  "set (ordered_channels (categorize_channels self)) = set (channels self)"
  by (auto simp: ordered_channels_def categorize_channels_lists)

lemma set_categories:
  "set (eeg (categorize_channels self)) \<union> set (ecg (categorize_channels self))
     \<union> set (reference (categorize_channels self)) = set (channels self)"
  by (auto simp: categorize_channels_lists)

lemma parse_eeg_csv_success:
  assumes "parse_eeg_csv to_float read_csv lines self0 = (self, Inr md)"
  shows "\<exists>raw k. read_csv (csv_file self0) k = Inr raw
           \<and> data self = Some (raw\<lparr> columns := map clean_column (columns raw) \<rparr>)
           \<and> channels self = filter keep_column (map clean_column (columns raw))"
  using assms
  by (auto simp: parse_eeg_csv_def Let_def split: prod.splits if_splits sum.splits)

section \<open>Facts about the figure\<close>

lemma add_traces_frame:
  "add_traces colors d cats i chs fig = Inr fig' \<Longrightarrow>
   rows fig' = rows fig \<and> subplot_titles fig' = subplot_titles fig \<and> height fig' = height fig
   \<and> matched_xaxes fig' = matched_xaxes fig \<and> time_axis_row fig' = time_axis_row fig"
proof (induction chs arbitrary: i fig)
  case Nil
  then show ?case by simp
next
  case (Cons ch rest)
  then show ?case
    by (auto simp: Let_def split: option.splits if_splits dest!: Cons.IH)
qed

lemma add_traces_traces:
  "add_traces colors (Some frame) cats i chs fig = Inr fig' \<Longrightarrow>
   traces fig' = traces fig @
     map (panel_trace colors) (filter (\<lambda>p. snd p \<in> set (columns frame)) (enumerate i chs))"
proof (induction chs arbitrary: i fig)
  case Nil
  then show ?case by simp
next
  case (Cons ch rest)
  show ?case
  proof (cases "ch \<in> set (columns frame)")
    case True
    let ?fig2 = "fig\<lparr> traces := traces fig @ [panel_trace colors (i, ch)],
                      yaxes := yaxes fig @ [(i + 1, yaxis_style cats ch)] \<rparr>"
    have r: "add_traces colors (Some frame) cats (Suc i) rest ?fig2 = Inr fig'"
      using Cons.prems True by (simp add: Let_def split: if_splits)
    show ?thesis using Cons.IH[OF r] True by simp
  next
    case False
    with Cons.prems have "add_traces colors (Some frame) cats (Suc i) rest fig = Inr fig'"
      by simp
    from Cons.IH[OF this] False show ?thesis by simp
  qed
qed

lemma add_traces_no_data:
  "chs \<noteq> [] \<Longrightarrow> add_traces colors None cats i chs fig = Inl AttributeError"
  by (cases chs) auto

lemma add_traces_ValueError:
  "add_traces colors d cats i chs fig = Inl (ValueError m) \<Longrightarrow> m = invalid_value_message"
proof (induction chs arbitrary: i fig)
  case Nil
  then show ?case by simp
next
  case (Cons ch rest)
  then show ?case by (auto simp: Let_def split: option.splits if_splits)
qed

lemma add_traces_succeeds:
  "colors \<noteq> [] \<Longrightarrow> count_list (columns frame) ''Time'' = 1 \<Longrightarrow>
   \<forall>ch\<in>set chs. count_list (columns frame) ch \<le> 1 \<Longrightarrow>
   \<exists>fig'. add_traces colors (Some frame) cats i chs fig = Inr fig'"
proof (induction chs arbitrary: i fig)
  case Nil
  then show ?case by simp
next
  case (Cons ch rest)
  from Cons.prems(2) have t: "''Time'' \<in> set (columns frame)"
    by (metis count_list_0_iff zero_neq_one)
  from Cons.prems(3) have c: "\<not> 1 < count_list (columns frame) ch" by auto
  show ?case
    using Cons.IH[OF Cons.prems(1,2)] Cons.prems t c by (auto simp: Let_def)
qed

lemma create_interactive_plot_Inr:
  assumes "create_interactive_plot Set1 Set2 cap self = Inr fig"
  defines "sel \<equiv> channels_to_plot cap (ordered_channels (categorize_channels self))"
  shows "sel \<noteq> [] \<and> rows fig = length sel
    \<and> subplot_titles fig = map (subplot_title (categorize_channels self)) sel
    \<and> height fig = 150 * length sel + 100
    \<and> (\<exists>frame. data self = Some frame
          \<and> traces fig = map (panel_trace (Set1 @ Set2))
              (filter (\<lambda>p. snd p \<in> set (columns frame)) (enumerate 0 sel)))"
proof -
  let ?cats = "categorize_channels self"
  let ?fig0 = "\<lparr> rows = length sel, subplot_titles = map (subplot_title ?cats) sel,
                 traces = [], yaxes = [], height = 0, matched_xaxes = [], time_axis_row = 0 \<rparr>"
  from assms(1) have ne: "sel \<noteq> []"
    by (auto simp: create_interactive_plot_def Let_def sel_def split: if_splits)
  from assms(1) obtain fig1 where
    a: "add_traces (Set1 @ Set2) (data self) ?cats 0 sel ?fig0 = Inr fig1"
    and f: "fig = fig1\<lparr> height := 150 * length sel + 100,
                         matched_xaxes := [2 ..< length sel + 1],
                         time_axis_row := length sel \<rparr>"
    by (auto simp: create_interactive_plot_def Let_def sel_def
        split: if_splits sum.splits option.splits)
  from a ne obtain frame where d: "data self = Some frame"
    by (cases "data self") (simp_all add: add_traces_no_data)
  have t: "traces fig1 = map (panel_trace (Set1 @ Set2))
              (filter (\<lambda>p. snd p \<in> set (columns frame)) (enumerate 0 sel))"
    using add_traces_traces[OF a[unfolded d]] by simp
  show ?thesis
    using ne add_traces_frame[OF a] t d f by simp
qed

lemma create_interactive_plot_empty:
  "(create_interactive_plot Set1 Set2 cap self = Inl (ValueError no_channels_message)) =
   (channels_to_plot cap (ordered_channels (categorize_channels self)) = [])"
proof -
  have 1: "spacing_message \<noteq> no_channels_message"
    by (simp add: spacing_message_def no_channels_message_def)
  have 2: "invalid_value_message \<noteq> no_channels_message"
    by (simp add: invalid_value_message_def no_channels_message_def)
  show ?thesis
    using 1 2
    by (auto simp: create_interactive_plot_def Let_def make_subplots_def
        split: sum.splits option.splits if_splits dest!: add_traces_ValueError)
qed

lemma filter_enumerate_all:
  "set xs \<subseteq> A \<Longrightarrow> filter (\<lambda>p. snd p \<in> A) (enumerate i xs) = enumerate i xs"
  by (induction xs arbitrary: i) auto

lemma map_enumerate_upt:
  "map g (enumerate 0 xs) = map (\<lambda>i. g (i, xs ! i)) [0..<length xs]"
  by (rule nth_equalityI) (simp_all add: nth_enumerate_eq)

lemma create_interactive_plot_traces:
  assumes "create_interactive_plot Set1 Set2 cap self = Inr fig"
    and "data self = Some frame" and "set (channels self) \<subseteq> set (columns frame)"
  defines "sel \<equiv> channels_to_plot cap (ordered_channels (categorize_channels self))"
  shows "traces fig =
           map (\<lambda>i. \<lparr> name = sel ! i,
                      color = (Set1 @ Set2) ! (i mod length (Set1 @ Set2)),
                      row = i + 1 \<rparr>) [0..<length sel]"
proof -
  have "set sel \<subseteq> set (ordered_channels (categorize_channels self))"
    by (auto simp: sel_def channels_to_plot_def slice_to_def split: option.splits
        dest: in_set_takeD)
  then have sub: "set sel \<subseteq> set (columns frame)"
    using assms(3) by (simp add: set_ordered_channels)
  from create_interactive_plot_Inr[OF assms(1)] assms(2)
  have "traces fig = map (panel_trace (Set1 @ Set2))
          (filter (\<lambda>p. snd p \<in> set (columns frame)) (enumerate 0 sel))"
    by (simp add: sel_def)
  then have "traces fig = map (panel_trace (Set1 @ Set2)) (enumerate 0 sel)"
    using filter_enumerate_all[OF sub] by simp
  then show ?thesis
    by (simp add: map_enumerate_upt panel_trace_def)
qed

lemma create_interactive_plot_returns:
  fixes self :: "('f, 'd) EEGPlotter" and cap :: "int option"
  defines "sel \<equiv> channels_to_plot cap (ordered_channels (categorize_channels self))"
  assumes "sel \<noteq> []" and "length sel < 68" and "Set1 @ Set2 \<noteq> []"
    and "data self = Some frame" and "count_list (columns frame) ''Time'' = 1"
    and "\<forall>ch\<in>set sel. count_list (columns frame) ch \<le> 1"
  shows "\<exists>fig. create_interactive_plot Set1 Set2 cap self = Inr fig"
proof -
  have m: "make_subplots (length sel) = None"
    using assms(3) unfolding make_subplots_def by (simp, arith)
  obtain fig1 where
    "add_traces (Set1 @ Set2) (Some frame) (categorize_channels self) 0 sel
       \<lparr> rows = length sel,
         subplot_titles = map (subplot_title (categorize_channels self)) sel,
         traces = [], yaxes = [], height = 0, matched_xaxes = [], time_axis_row = 0 \<rparr>
     = Inr fig1"
    using add_traces_succeeds[OF assms(4) assms(6) assms(7)] by blast
  then show ?thesis
    using assms(2) assms(5) m
    by (simp add: create_interactive_plot_def Let_def sel_def[symmetric])
qed

lemma parse_eeg_csv_channels:
  assumes "parse_eeg_csv to_float read_csv lines self0 = (self, Inr md)"
  shows "\<exists>frame. data self = Some frame \<and> channels self = filter keep_column (columns frame)"
  using parse_eeg_csv_success[OF assms] by auto

lemma distinct_count_list:
  "distinct xs \<Longrightarrow> count_list xs x = (if x \<in> set xs then 1 else 0)"
  by (induction xs) auto

section \<open>The classification of the channels\<close>

text \<open>
  \<^bold>\<open>C1.\<close> \<open>categorize_channels\<close> splits \<open>self.channels\<close> into three lists by the rules in
  priority order: a name that contains \<open>X1_LEOG\<close> or \<open>X2_REOG\<close> goes to \<open>ecg\<close>, otherwise a
  name that contains \<open>CM\<close> goes to \<open>reference\<close>, otherwise the name goes to \<open>eeg\<close>. Each list
  is the sublist of the channels that its rule selects, so the original order is kept; the
  three lists together hold every channel as often as \<open>self.channels\<close> does, and no name is
  in two of them. For the channels \<open>X1_LEOG, X2_REOG, CM_ref, Fp1\<close> the result is
  \<open>ecg = [X1_LEOG, X2_REOG]\<close>, \<open>reference = [CM_ref]\<close>, \<open>eeg = [Fp1]\<close>.
\<close>

theorem categorize_channels_partition:
  fixes self :: "('f, 'd) EEGPlotter"
  defines "cats \<equiv> categorize_channels self"
  shows "ecg cats = filter (\<lambda>c. contains ''X1_LEOG'' c \<or> contains ''X2_REOG'' c) (channels self)
    \<and> reference cats =
        filter (\<lambda>c. \<not> (contains ''X1_LEOG'' c \<or> contains ''X2_REOG'' c) \<and> contains ''CM'' c)
          (channels self)
    \<and> eeg cats =
        filter (\<lambda>c. \<not> (contains ''X1_LEOG'' c \<or> contains ''X2_REOG'' c) \<and> \<not> contains ''CM'' c)
          (channels self)
    \<and> mset (eeg cats) + mset (ecg cats) + mset (reference cats) = mset (channels self)
    \<and> set (eeg cats) \<inter> set (ecg cats) = {}
    \<and> set (eeg cats) \<inter> set (reference cats) = {}
    \<and> set (ecg cats) \<inter> set (reference cats) = {}
    \<and> categorize_channels (self\<lparr> channels := [''X1_LEOG'', ''X2_REOG'', ''CM_ref'', ''Fp1''] \<rparr>)
        = \<lparr> eeg = [''Fp1''], ecg = [''X1_LEOG'', ''X2_REOG''], reference = [''CM_ref''] \<rparr>"
proof -
  have x: "categorize_channels
             (self\<lparr> channels := [''X1_LEOG'', ''X2_REOG'', ''CM_ref'', ''Fp1''] \<rparr>)
           = \<lparr> eeg = [''Fp1''], ecg = [''X1_LEOG'', ''X2_REOG''], reference = [''CM_ref''] \<rparr>"
    by (simp add: categorize_channels_def is_ocular_def startswith_def)
  note l = categorize_channels_lists[of self, folded cats_def]
  have m: "mset (eeg cats) + mset (ecg cats) + mset (reference cats) = mset (channels self)"
    unfolding l by (rule mset_three_filters)
  have d: "set (eeg cats) \<inter> set (ecg cats) = {}" "set (eeg cats) \<inter> set (reference cats) = {}"
    "set (ecg cats) \<inter> set (reference cats) = {}"
    unfolding l by auto
  show ?thesis
    using l m d x unfolding is_ocular_eq by simp
qed

theorem categorize_channels_partition_witness:
  "categorize_channels
     ((init ''rec.csv'' :: (real, unit) EEGPlotter)
        \<lparr> channels := [''X1_LEOG'', ''X2_REOG'', ''CM_ref'', ''Fp1''] \<rparr>)
   = \<lparr> eeg = [''Fp1''], ecg = [''X1_LEOG'', ''X2_REOG''], reference = [''CM_ref''] \<rparr>"
  using categorize_channels_partition
    [of "(init ''rec.csv'' :: (real, unit) EEGPlotter)
           \<lparr> channels := [''X1_LEOG'', ''X2_REOG'', ''CM_ref'', ''Fp1''] \<rparr>"]
  by (simp add: init_def startswith_def)

section \<open>The scan for the header and the sample rate\<close>

text \<open>
  \<^bold>\<open>C2.\<close> Trimming a line removes a run of whitespace characters from its front and one
  from its end, and what is left neither starts nor ends with a whitespace character (the
  characters are those of \<open>whitespace\<close>). A trimmed line is the header exactly when it is
  \<open>Time\<close>, then a comma or a tab, then anything. The scan returns index \<open>k\<close> exactly when
  line \<open>k\<close> is the first line whose trimmed text is a header, and \<open>-1\<close> exactly when no
  line is one. For the lines \<open>junk\<close>, \<open>Sample_Frequency_(Hz),256\<close>, \<open>Time,C1,C2,Trigger\<close>,
  \<open>0,1,2,3\<close> the scan returns index 2 and the sample rate \<open>float('256')\<close>; it returns the
  same when the lines end in a line feed or in carriage return and line feed, the label
  line is indented, and the header is written with a tab and stands behind a tab and a
  no-break space.
\<close>

theorem header_discovery:
  fixes to_float :: "string \<Rightarrow> 'f option"
  shows "(\<exists>a b. set a \<subseteq> set whitespace \<and> set b \<subseteq> set whitespace
            \<and> line = concat a @ strip line @ concat b)
    \<and> \<not> (\<exists>w\<in>set whitespace. startswith w (strip line))
    \<and> \<not> (\<exists>w\<in>set whitespace. endswith w (strip line))
    \<and> is_header s = (\<exists>c rest. (c = CHR '','' \<or> c = CHR 0x09) \<and> s = ''Time'' @ c # rest)
    \<and> ((fst (scan_lines to_float 0 lines st) = int k) =
         (k < length lines \<and> is_header (strip (lines ! k))
          \<and> (\<forall>j<k. \<not> is_header (strip (lines ! j)))))
    \<and> ((fst (scan_lines to_float 0 lines st) = - 1) = (\<forall>l\<in>set lines. \<not> is_header (strip l)))
    \<and> (to_float ''256'' = Some v \<longrightarrow>
         scan_lines to_float 0
           [''junk'', ''Sample_Frequency_(Hz),256'', ''Time,C1,C2,Trigger'', ''0,1,2,3'']
           (PyInt 200, Map.empty)
         = (2, PyFloat v, [''sample_rate'' \<mapsto> PyFloat v]))
    \<and> (to_float ''256'' = Some v \<longrightarrow>
         scan_lines to_float 0
           [''junk'' @ [CHR 0x0A],
            ''  Sample_Frequency_(Hz),256'' @ [CHR 0x0D, CHR 0x0A],
            [CHR 0x09, CHR 0xC2, CHR 0xA0] @ ''Time'' @ [CHR 0x09] @ ''C1'' @ [CHR 0x0A],
            ''0,1'' @ [CHR 0x0A]]
           (PyInt 200, Map.empty)
         = (2, PyFloat v, [''sample_rate'' \<mapsto> PyFloat v]))"
proof -
  let ?P = "\<lambda>l. is_header (strip l)"
  let ?n = "length (takeWhile (\<lambda>l. \<not> ?P l) lines)"
  have ex: "(\<exists>l\<in>set lines. ?P l) = (?n < length lines)"
    by (rule takeWhile_ex)
  have idx: "fst (scan_lines to_float 0 lines st) = (if ?n < length lines then int ?n else - 1)"
    using scan_lines_index[of to_float 0 lines st] ex by simp
  have a: "(fst (scan_lines to_float 0 lines st) = int k) =
         (k < length lines \<and> ?P (lines ! k) \<and> (\<forall>j<k. \<not> ?P (lines ! j)))"
    using takeWhile_first[of ?P lines k] idx by auto
  have b: "(fst (scan_lines to_float 0 lines st) = - 1) = (\<forall>l\<in>set lines. \<not> ?P l)"
    using idx ex by auto
  have s1: "strip ''junk'' = ''junk''"
    "strip ''Sample_Frequency_(Hz),256'' = ''Sample_Frequency_(Hz),256''"
    "strip ''Time,C1,C2,Trigger'' = ''Time,C1,C2,Trigger''"
    by (simp_all add: strip_eval)
  have s2: "strip (''junk'' @ [CHR 0x0A]) = ''junk''"
    "strip (''  Sample_Frequency_(Hz),256'' @ [CHR 0x0D, CHR 0x0A])
       = ''Sample_Frequency_(Hz),256''"
    "strip ([CHR 0x09, CHR 0xC2, CHR 0xA0] @ ''Time'' @ [CHR 0x09] @ ''C1'' @ [CHR 0x0A])
       = ''Time'' @ [CHR 0x09] @ ''C1''"
    by (simp_all add: strip_eval)
  have c: "to_float ''256'' = Some v \<longrightarrow>
         scan_lines to_float 0
           [''junk'', ''Sample_Frequency_(Hz),256'', ''Time,C1,C2,Trigger'', ''0,1,2,3'']
           (PyInt 200, Map.empty)
         = (2, PyFloat v, [''sample_rate'' \<mapsto> PyFloat v])"
    by (simp add: Let_def s1 is_header_def startswith_def read_rate_def split_def nth_opt_def)
  have d: "to_float ''256'' = Some v \<longrightarrow>
         scan_lines to_float 0
           [''junk'' @ [CHR 0x0A],
            ''  Sample_Frequency_(Hz),256'' @ [CHR 0x0D, CHR 0x0A],
            [CHR 0x09, CHR 0xC2, CHR 0xA0] @ ''Time'' @ [CHR 0x09] @ ''C1'' @ [CHR 0x0A],
            ''0,1'' @ [CHR 0x0A]]
           (PyInt 200, Map.empty)
         = (2, PyFloat v, [''sample_rate'' \<mapsto> PyFloat v])"
    using s2
    by (simp add: Let_def is_header_def startswith_def read_rate_def split_def nth_opt_def)
  have p1: "\<exists>a b. set a \<subseteq> set whitespace \<and> set b \<subseteq> set whitespace
            \<and> line = concat a @ strip line @ concat b"
    by (rule strip_spec(1))
  have p2: "\<not> (\<exists>w\<in>set whitespace. startswith w (strip line))"
    using strip_spec(2) by blast
  have p3: "\<not> (\<exists>w\<in>set whitespace. endswith w (strip line))"
    using strip_spec(3) by blast
  show ?thesis
    using p1 p2 p3 is_header_iff[of s] a b c d by (intro conjI) assumption+
qed

theorem header_discovery_witness:
  "fst (scan_lines (\<lambda>s. if s = ''256'' then Some (256 :: real) else None) 0
          [''junk'', ''Sample_Frequency_(Hz),256'', ''Time,C1,C2,Trigger'', ''0,1,2,3'']
          (PyInt 200, Map.empty)) = 2
   \<and> fst (snd (scan_lines (\<lambda>s. if s = ''256'' then Some (256 :: real) else None) 0
          [''junk'', ''Sample_Frequency_(Hz),256'', ''Time,C1,C2,Trigger'', ''0,1,2,3'']
          (PyInt 200, Map.empty))) = PyFloat 256
   \<and> scan_lines (\<lambda>s. if s = ''256'' then Some (256 :: real) else None) 0
         [''junk'' @ [CHR 0x0A],
          ''  Sample_Frequency_(Hz),256'' @ [CHR 0x0D, CHR 0x0A],
          [CHR 0x09, CHR 0xC2, CHR 0xA0] @ ''Time'' @ [CHR 0x09] @ ''C1'' @ [CHR 0x0A],
          ''0,1'' @ [CHR 0x0A]]
         (PyInt 200, Map.empty)
       = (2, PyFloat 256, [''sample_rate'' \<mapsto> PyFloat 256])"
proof -
  note T = header_discovery
    [of "''x''" "''Time,C1,C2,Trigger''"
        "\<lambda>s. if s = ''256'' then Some (256 :: real) else None"
        "[''junk'', ''Sample_Frequency_(Hz),256'', ''Time,C1,C2,Trigger'', ''0,1,2,3'']"
        "(PyInt 200, Map.empty)" 2 256]
  have h: "(\<lambda>s. if s = ''256'' then Some (256 :: real) else None) ''256'' = Some 256"
    by simp
  have 1: "scan_lines (\<lambda>s. if s = ''256'' then Some (256 :: real) else None) 0
          [''junk'', ''Sample_Frequency_(Hz),256'', ''Time,C1,C2,Trigger'', ''0,1,2,3'']
          (PyInt 200, Map.empty) = (2, PyFloat 256, [''sample_rate'' \<mapsto> PyFloat 256])"
    by (rule T[THEN conjunct2, THEN conjunct2, THEN conjunct2, THEN conjunct2,
          THEN conjunct2, THEN conjunct2, THEN conjunct1, THEN mp, OF h])
  have 2: "scan_lines (\<lambda>s. if s = ''256'' then Some (256 :: real) else None) 0
         [''junk'' @ [CHR 0x0A],
          ''  Sample_Frequency_(Hz),256'' @ [CHR 0x0D, CHR 0x0A],
          [CHR 0x09, CHR 0xC2, CHR 0xA0] @ ''Time'' @ [CHR 0x09] @ ''C1'' @ [CHR 0x0A],
          ''0,1'' @ [CHR 0x0A]]
         (PyInt 200, Map.empty)
       = (2, PyFloat 256, [''sample_rate'' \<mapsto> PyFloat 256])"
    by (rule T[THEN conjunct2, THEN conjunct2, THEN conjunct2, THEN conjunct2,
          THEN conjunct2, THEN conjunct2, THEN conjunct2, THEN mp, OF h])
  show ?thesis unfolding 1 using 2 by simp
qed

text \<open>
  \<^bold>\<open>C6.\<close> When no line of the input is a header, \<open>parse_eeg_csv\<close> raises the ValueError
  "Could not find header line starting with 'Time'". Every line has been scanned by then:
  the sample rate of the object is the one that reading the rate from all the lines, in
  order, leaves. \<open>pd.read_csv\<close> is not called, \<open>self.data\<close> and \<open>self.channels\<close> are what
  they were before the call, and on a fresh object \<open>self.data\<close> is still \<open>None\<close>.
\<close>

theorem missing_header_is_fatal:
  fixes self :: "('f, 'd) EEGPlotter"
  assumes "\<forall>l\<in>set lines. \<not> is_header (strip l)"
  shows "parse_eeg_csv to_float read_csv lines self =
           (self\<lparr> sample_rate :=
                    fst (fold (\<lambda>raw. read_rate to_float (strip raw)) lines
                           (sample_rate self, Map.empty)) \<rparr>,
            Inl (ValueError no_header_message))
    \<and> data (fst (parse_eeg_csv to_float read_csv lines self)) = data self
    \<and> channels (fst (parse_eeg_csv to_float read_csv lines self)) = channels self
    \<and> data (fst (parse_eeg_csv to_float read_csv lines
                    (init file :: ('f, 'd) EEGPlotter))) = None"
proof -
  have *: "\<And>p :: ('f, 'd) EEGPlotter. parse_eeg_csv to_float read_csv lines p =
           (p\<lparr> sample_rate :=
                    fst (fold (\<lambda>raw. read_rate to_float (strip raw)) lines
                           (sample_rate p, Map.empty)) \<rparr>,
            Inl (ValueError no_header_message))"
    using assms
    by (simp add: parse_eeg_csv_def scan_lines_no_header Let_def split: prod.splits)
  show ?thesis
    by (simp add: * init_def)
qed

theorem missing_header_is_fatal_witness:
  "parse_eeg_csv (\<lambda>s. if s = ''256'' then Some (256 :: real) else None)
     (\<lambda>file k. Inr \<lparr> columns = [''Time'', ''C1''], cells = () \<rparr>)
     [''junk'' @ [CHR 0x0A], ''Time'' @ [CHR 0x09, CHR 0x0A],
      ''Sample_Frequency_(Hz),256'' @ [CHR 0x0A], ''0,1,2,3'' @ [CHR 0x0A]]
     (init ''rec.csv'')
   = (\<lparr> csv_file = ''rec.csv'', data = None, channels = [], sample_rate = PyFloat 256 \<rparr>,
      Inl (ValueError no_header_message))"
proof -
  have st: "strip (''junk'' @ [CHR 0x0A]) = ''junk''"
    "strip (''Time'' @ [CHR 0x09, CHR 0x0A]) = ''Time''"
    "strip (''Sample_Frequency_(Hz),256'' @ [CHR 0x0A]) = ''Sample_Frequency_(Hz),256''"
    "strip (''0,1,2,3'' @ [CHR 0x0A]) = ''0,1,2,3''"
    by (simp_all add: strip_eval)
  have h: "\<forall>l\<in>set [''junk'' @ [CHR 0x0A], ''Time'' @ [CHR 0x09, CHR 0x0A],
                     ''Sample_Frequency_(Hz),256'' @ [CHR 0x0A], ''0,1,2,3'' @ [CHR 0x0A]].
             \<not> is_header (strip l)"
    using st by (simp add: is_header_def startswith_def)
  show ?thesis
    using missing_header_is_fatal[OF h,
        of "\<lambda>s. if s = ''256'' then Some (256 :: real) else None"
           "\<lambda>file k. Inr \<lparr> columns = [''Time'', ''C1''], cells = () \<rparr>"
           "init ''rec.csv''" "''rec.csv''"] st
    by (simp add: init_def read_rate_def startswith_def split_def nth_opt_def)
qed

text \<open>
  \<^bold>\<open>C7.\<close> When no line of the input contains \<open>Sample_Frequency_(Hz)\<close>, the sample rate after
  \<open>parse_eeg_csv\<close> is the one the object had before, which on a fresh object is the \<open>200\<close>
  of \<open>__init__\<close> (the Python \<open>int\<close> 200, equal to \<open>200.0\<close>). A line whose second comma field
  is missing or is refused by \<open>float\<close> changes neither the sample rate nor the metadata,
  whether or not it contains the label, and the scan goes on as if the line held no rate:
  nothing is raised.
\<close>

theorem sample_rate_best_effort:
  fixes self :: "('f, 'd) EEGPlotter"
  shows "((\<forall>l\<in>set lines. \<not> contains ''Sample_Frequency_(Hz)'' l) \<longrightarrow>
            sample_rate (fst (parse_eeg_csv to_float read_csv lines
                                (init file :: ('f, 'd) EEGPlotter))) = PyInt 200
          \<and> sample_rate (fst (parse_eeg_csv to_float read_csv lines self)) = sample_rate self)
    \<and> ((\<forall>field. nth_opt (split CHR '','' (strip raw)) 1 = Some field \<longrightarrow> to_float field = None)
          \<longrightarrow> read_rate to_float (strip raw) st = st
            \<and> scan_lines to_float i (raw # rest) st =
                (if is_header (strip raw) then (i, st)
                 else scan_lines to_float (i + 1) rest st))"
proof -
  have a: "sample_rate (fst (parse_eeg_csv to_float read_csv lines p)) = sample_rate p"
    if "\<forall>l\<in>set lines. \<not> contains ''Sample_Frequency_(Hz)'' l" for p :: "('f, 'd) EEGPlotter"
  proof -
    have "snd (scan_lines to_float 0 lines (sample_rate p, Map.empty))
            = (sample_rate p, Map.empty)"
      using that by (rule scan_lines_no_label)
    then show ?thesis
      by (auto simp: parse_eeg_csv_def Let_def split: prod.splits sum.splits)
  qed
  have b: "read_rate to_float (strip raw) st = st"
    if "\<forall>field. nth_opt (split CHR '','' (strip raw)) 1 = Some field \<longrightarrow> to_float field = None"
    using that by (auto simp: read_rate_def split: option.splits)
  show ?thesis
    using a[of "init file"] a[of self] b by (simp add: init_def Let_def)
qed

theorem sample_rate_best_effort_witness:
  "sample_rate (fst (parse_eeg_csv (\<lambda>s. if s = ''256'' then Some (256 :: real) else None)
       (\<lambda>file k. Inr \<lparr> columns = [''Time'', ''C1''], cells = () \<rparr>)
       [''junk'', ''Time,C1'', ''0,1'']
       (init ''rec.csv''))) = PyInt 200
   \<and> read_rate (\<lambda>s. if s = ''256'' then Some (256 :: real) else None)
        ''Sample_Frequency_(Hz),abc'' (PyFloat 256, Map.empty) = (PyFloat 256, Map.empty)"
proof -
  have h1: "\<forall>l\<in>set [''junk'', ''Time,C1'', ''0,1'']. \<not> contains ''Sample_Frequency_(Hz)'' l"
    by (simp add: startswith_def)
  have s: "strip ''Sample_Frequency_(Hz),abc'' = ''Sample_Frequency_(Hz),abc''"
    by (simp add: strip_eval)
  have h2: "\<forall>field. nth_opt (split CHR '','' (strip ''Sample_Frequency_(Hz),abc'')) 1 = Some field
              \<longrightarrow> (\<lambda>s. if s = ''256'' then Some (256 :: real) else None) field = None"
    by (simp add: s split_def nth_opt_def)
  show ?thesis
    using sample_rate_best_effort
      [of "[''junk'', ''Time,C1'', ''0,1'']"
          "\<lambda>s. if s = ''256'' then Some (256 :: real) else None"
          "\<lambda>file k. Inr \<lparr> columns = [''Time'', ''C1''], cells = () \<rparr>"
          "''rec.csv''" "init ''rec.csv''" "''Sample_Frequency_(Hz),abc''"
          "(PyFloat 256, Map.empty)"] h1 h2 s
    by simp
qed

section \<open>The excluded columns\<close>

text \<open>
  \<^bold>\<open>C3 (as amended).\<close> After a successful \<open>parse_eeg_csv\<close>, a cleaned column of the data
  frame is in none of the three category lists exactly when its stripped name is empty, it
  is \<open>Time\<close>, or it is equal to one of the entries of \<open>exclude_cols\<close>. The test of the source
  is \<open>col not in exclude_cols\<close> on a list, which compares whole names: a column that merely
  contains an entry, such as \<open>Trigger_1\<close>, is kept and classified (the counterexample below).
\<close>

theorem column_exclusion:
  fixes self :: "('f, 'd) EEGPlotter"
  assumes "parse_eeg_csv to_float read_csv lines self0 = (self, Inr md)"
  shows "\<exists>frame. data self = Some frame
           \<and> (\<forall>col\<in>set (columns frame).
                 (col \<notin> set (eeg (categorize_channels self))
                          \<union> set (ecg (categorize_channels self))
                          \<union> set (reference (categorize_channels self)))
                 = (strip col = [] \<or> col = ''Time'' \<or> col \<in> set exclude_cols))"
proof -
  obtain raw k where r: "read_csv (csv_file self0) k = Inr raw"
    and d: "data self = Some (raw\<lparr> columns := map clean_column (columns raw) \<rparr>)"
    and c: "channels self = filter keep_column (map clean_column (columns raw))"
    using parse_eeg_csv_success[OF assms] by blast
  show ?thesis
    unfolding set_categories using d c
    by (auto simp: keep_column_def)
qed

theorem column_exclusion_witness:
  "channels (fst (parse_eeg_csv (\<lambda>s. if s = ''256'' then Some (256 :: real) else None)
       (\<lambda>file k. Inr \<lparr> columns = [''Time'', ''C1'', ''Trigger'', ''Comments''], cells = () \<rparr>)
       [''Time,C1,Trigger,Comments'', ''0,1,2,3'']
       (init ''rec.csv''))) = [''C1'']
   \<and> eeg (categorize_channels (fst (parse_eeg_csv
       (\<lambda>s. if s = ''256'' then Some (256 :: real) else None)
       (\<lambda>file k. Inr \<lparr> columns = [''Time'', ''C1'', ''Trigger'', ''Comments''], cells = () \<rparr>)
       [''Time,C1,Trigger,Comments'', ''0,1,2,3'']
       (init ''rec.csv'')))) = [''C1'']"
proof -
  let ?tf = "\<lambda>s. if s = ''256'' then Some (256 :: real) else None"
  let ?rc = "\<lambda>(file :: string) (k :: int).
               Inr \<lparr> columns = [''Time'', ''C1'', ''Trigger'', ''Comments''], cells = () \<rparr>"
  let ?ls = "[''Time,C1,Trigger,Comments'', ''0,1,2,3'']"
  let ?self = "\<lparr> csv_file = ''rec.csv'',
                 data = Some \<lparr> columns = [''Time'', ''C1'', ''Trigger'', ''Comments''], cells = () \<rparr>,
                 channels = [''C1''], sample_rate = PyInt 200 :: real number \<rparr>"
  have sc: "scan_lines ?tf 0 ?ls (PyInt 200, Map.empty) = (0, PyInt 200, Map.empty)"
    by (simp add: Let_def strip_eval is_header_def read_rate_def)
  have cc: "clean_column ''Time'' = ''Time''" "clean_column ''C1'' = ''C1''"
    "clean_column ''Trigger'' = ''Trigger''" "clean_column ''Comments'' = ''Comments''"
    by (simp_all add: clean_column_def strip_eval)
  have kc: "\<not> keep_column ''Time''" "keep_column ''C1''"
    "\<not> keep_column ''Trigger''" "\<not> keep_column ''Comments''"
    by (simp_all add: keep_column_def exclude_cols_def strip_eval)
  have p: "parse_eeg_csv ?tf ?rc ?ls (init ''rec.csv'') = (?self, Inr Map.empty)"
    by (simp add: parse_eeg_csv_def init_def sc cc kc del: scan_lines.simps)
  show ?thesis
    using column_exclusion[OF p] p
    by (simp add: categorize_channels_def is_ocular_def startswith_def)
qed

theorem column_exclusion_counterexample:
  "contains ''Trigger'' ''Trigger_1''
   \<and> channels (fst (parse_eeg_csv (\<lambda>s. if s = ''256'' then Some (256 :: real) else None)
       (\<lambda>file k. Inr \<lparr> columns = [''Time'', ''Trigger_1''], cells = () \<rparr>)
       [''Time,Trigger_1'', ''0,1'']
       (init ''rec.csv''))) = [''Trigger_1'']
   \<and> eeg (categorize_channels (fst (parse_eeg_csv
       (\<lambda>s. if s = ''256'' then Some (256 :: real) else None)
       (\<lambda>file k. Inr \<lparr> columns = [''Time'', ''Trigger_1''], cells = () \<rparr>)
       [''Time,Trigger_1'', ''0,1'']
       (init ''rec.csv'')))) = [''Trigger_1'']"
proof -
  let ?tf = "\<lambda>s. if s = ''256'' then Some (256 :: real) else None"
  let ?rc = "\<lambda>(file :: string) (k :: int).
               Inr \<lparr> columns = [''Time'', ''Trigger_1''], cells = () \<rparr>"
  let ?ls = "[''Time,Trigger_1'', ''0,1'']"
  let ?self = "\<lparr> csv_file = ''rec.csv'',
                 data = Some \<lparr> columns = [''Time'', ''Trigger_1''], cells = () \<rparr>,
                 channels = [''Trigger_1''], sample_rate = PyInt 200 :: real number \<rparr>"
  have sc: "scan_lines ?tf 0 ?ls (PyInt 200, Map.empty) = (0, PyInt 200, Map.empty)"
    by (simp add: Let_def strip_eval is_header_def read_rate_def)
  have cc: "clean_column ''Time'' = ''Time''" "clean_column ''Trigger_1'' = ''Trigger_1''"
    by (simp_all add: clean_column_def strip_eval)
  have kc: "\<not> keep_column ''Time''" "keep_column ''Trigger_1''"
    by (simp_all add: keep_column_def exclude_cols_def strip_eval)
  have p: "parse_eeg_csv ?tf ?rc ?ls (init ''rec.csv'') = (?self, Inr Map.empty)"
    by (simp add: parse_eeg_csv_def init_def sc cc kc del: scan_lines.simps)
  show ?thesis
    by (simp add: p categorize_channels_def is_ocular_def startswith_def)
qed

section \<open>The layout of the figure\<close>




text \<open>
  \<^bold>\<open>C8.\<close> The palette is \<open>Set1 + Set2\<close>. In a figure that the builder returns, a trace
  sits on a row between 1 and the number of rows, shows the selected channel at position
  \<open>row - 1\<close>, and has the colour at index \<open>(row - 1) mod len\<close> of the palette. When every
  channel is a column of the data frame (as it is after \<open>parse_eeg_csv\<close>), the figure has
  exactly one trace per selected channel: the trace of the channel at position \<open>i\<close> is on
  row \<open>i + 1\<close> and has the colour at index \<open>i mod len\<close>. Such a figure is returned whenever
  the selection has between 1 and 67 channels, the palette is not empty and the cleaned
  column labels are distinct and include \<open>Time\<close>. So the colour depends on the position of
  the channel alone: in any two figures built with the same palettes, traces on equal rows
  have equal colours (and show the same channel when the two selections are the same
  list), and two builds on loaded data with the same selection yield the same list of
  traces. plotly's \<open>Set1 + Set2\<close> has 17 colours.
\<close>

theorem trace_color_determinism:
  fixes self self' :: "('f, 'd) EEGPlotter" and cap cap' :: "int option"
    and Set1 Set2 :: "string list"
  defines "palette \<equiv> Set1 @ Set2"
  defines "sel \<equiv> channels_to_plot cap (ordered_channels (categorize_channels self))"
  defines "sel' \<equiv> channels_to_plot cap' (ordered_channels (categorize_channels self'))"
  defines "panel \<equiv> \<lambda>chs i. \<lparr> name = chs ! i, color = palette ! (i mod length palette),
                                row = i + 1 \<rparr>"
  shows "(\<forall>fig. create_interactive_plot Set1 Set2 cap self = Inr fig \<longrightarrow>
            (\<forall>t\<in>set (traces fig).
               1 \<le> row t \<and> row t \<le> rows fig
               \<and> color t = palette ! ((row t - 1) mod length palette)
               \<and> name t = sel ! (row t - 1)))
    \<and> (\<forall>fig frame. create_interactive_plot Set1 Set2 cap self = Inr fig
            \<and> data self = Some frame \<and> set (channels self) \<subseteq> set (columns frame) \<longrightarrow>
            sel \<noteq> [] \<and> rows fig = length sel
            \<and> traces fig = map (panel sel) [0..<length sel])
    \<and> (\<forall>to_float read_csv lines self0 md fig.
          parse_eeg_csv to_float read_csv lines self0 = (self, Inr md)
            \<and> create_interactive_plot Set1 Set2 cap self = Inr fig \<longrightarrow>
            sel \<noteq> [] \<and> traces fig = map (panel sel) [0..<length sel])
    \<and> (\<forall>frame. sel \<noteq> [] \<and> length sel < 68 \<and> palette \<noteq> []
                \<and> data self = Some frame \<and> distinct (columns frame)
                \<and> ''Time'' \<in> set (columns frame)
          \<longrightarrow> (\<exists>fig. create_interactive_plot Set1 Set2 cap self = Inr fig))
    \<and> (\<forall>fig fig'. create_interactive_plot Set1 Set2 cap self = Inr fig
            \<and> create_interactive_plot Set1 Set2 cap' self' = Inr fig' \<longrightarrow>
            (\<forall>t\<in>set (traces fig). \<forall>t'\<in>set (traces fig'). row t = row t' \<longrightarrow>
               color t = color t' \<and> (sel' = sel \<longrightarrow> name t = name t')))
    \<and> (\<forall>fig fig' frame frame'. create_interactive_plot Set1 Set2 cap self = Inr fig
            \<and> create_interactive_plot Set1 Set2 cap' self' = Inr fig'
            \<and> data self = Some frame \<and> set (channels self) \<subseteq> set (columns frame)
            \<and> data self' = Some frame' \<and> set (channels self') \<subseteq> set (columns frame')
            \<and> sel' = sel \<longrightarrow>
            traces fig' = traces fig)
    \<and> length (plotly_Set1 @ plotly_Set2) = 17"
proof -
  have key: "1 \<le> row t \<and> row t \<le> rows g
            \<and> color t = palette ! ((row t - 1) mod length palette)
            \<and> name t = channels_to_plot c (ordered_channels (categorize_channels p))
                         ! (row t - 1)"
    if c: "create_interactive_plot Set1 Set2 c p = Inr g" and t: "t \<in> set (traces g)"
    for c g t and p :: "('f, 'd) EEGPlotter"
  proof -
    let ?sel = "channels_to_plot c (ordered_channels (categorize_channels p))"
    from create_interactive_plot_Inr[OF c] obtain frame :: "'d dataframe" where
      rw: "rows g = length ?sel"
      and tr: "traces g = map (panel_trace (Set1 @ Set2))
              (filter (\<lambda>p. snd p \<in> set (columns frame)) (enumerate 0 ?sel))"
      by auto
    from t tr obtain q where q: "q \<in> set (enumerate 0 ?sel)"
      and tq: "t = panel_trace (Set1 @ Set2) q"
      by auto
    from q have "fst q < length ?sel" and "?sel ! fst q = snd q"
      by (auto simp: in_set_enumerate_eq)
    then show ?thesis using tq rw by (simp add: panel_trace_def palette_def)
  qed
  have full: "channels_to_plot c (ordered_channels (categorize_channels p)) \<noteq> []
            \<and> rows g = length (channels_to_plot c (ordered_channels (categorize_channels p)))
            \<and> traces g = map (panel (channels_to_plot c (ordered_channels (categorize_channels p))))
                 [0..<length (channels_to_plot c (ordered_channels (categorize_channels p)))]"
    if c: "create_interactive_plot Set1 Set2 c p = Inr g" and d: "data p = Some frame"
      and s: "set (channels p) \<subseteq> set (columns frame)"
    for c g frame and p :: "('f, 'd) EEGPlotter"
    using create_interactive_plot_Inr[OF c] create_interactive_plot_traces[OF c d s]
    by (simp add: panel_def palette_def)
  have a: "\<forall>fig. create_interactive_plot Set1 Set2 cap self = Inr fig \<longrightarrow>
            (\<forall>t\<in>set (traces fig).
               1 \<le> row t \<and> row t \<le> rows fig
               \<and> color t = palette ! ((row t - 1) mod length palette)
               \<and> name t = sel ! (row t - 1))"
    using key unfolding sel_def by blast
  have b: "\<forall>fig frame. create_interactive_plot Set1 Set2 cap self = Inr fig
            \<and> data self = Some frame \<and> set (channels self) \<subseteq> set (columns frame) \<longrightarrow>
            sel \<noteq> [] \<and> rows fig = length sel
            \<and> traces fig = map (panel sel) [0..<length sel]"
    using full unfolding sel_def by blast
  have c: "\<forall>to_float read_csv lines self0 md fig.
          parse_eeg_csv to_float read_csv lines self0 = (self, Inr md)
            \<and> create_interactive_plot Set1 Set2 cap self = Inr fig \<longrightarrow>
            sel \<noteq> [] \<and> traces fig = map (panel sel) [0..<length sel]"
  proof (intro allI impI)
    fix to_float :: "string \<Rightarrow> 'f option" and read_csv lines
      and self0 :: "('f, 'd) EEGPlotter" and md fig
    assume h: "parse_eeg_csv to_float read_csv lines self0 = (self, Inr md)
            \<and> create_interactive_plot Set1 Set2 cap self = Inr fig"
    from parse_eeg_csv_channels[of to_float read_csv lines self0 self md] h
    obtain frame where dd: "data self = Some frame"
      and cc: "channels self = filter keep_column (columns frame)"
      by blast
    have "set (channels self) \<subseteq> set (columns frame)" using cc by auto
    from full[OF _ dd this] h
    show "sel \<noteq> [] \<and> traces fig = map (panel sel) [0..<length sel]"
      unfolding sel_def by blast
  qed
  have d: "\<forall>frame. sel \<noteq> [] \<and> length sel < 68 \<and> palette \<noteq> []
                \<and> data self = Some frame \<and> distinct (columns frame)
                \<and> ''Time'' \<in> set (columns frame)
          \<longrightarrow> (\<exists>fig. create_interactive_plot Set1 Set2 cap self = Inr fig)"
  proof (intro allI impI)
    fix frame :: "'d dataframe"
    assume h: "sel \<noteq> [] \<and> length sel < 68 \<and> palette \<noteq> []
                \<and> data self = Some frame \<and> distinct (columns frame)
                \<and> ''Time'' \<in> set (columns frame)"
    then have 1: "count_list (columns frame) ''Time'' = 1"
      by (simp add: distinct_count_list)
    have 2: "\<forall>ch\<in>set sel. count_list (columns frame) ch \<le> 1"
      using h by (simp add: distinct_count_list)
    show "\<exists>fig. create_interactive_plot Set1 Set2 cap self = Inr fig"
      using create_interactive_plot_returns[of cap self Set1 Set2 frame] h 1 2
      by (simp add: sel_def palette_def)
  qed
  have e: "\<forall>fig fig'. create_interactive_plot Set1 Set2 cap self = Inr fig
            \<and> create_interactive_plot Set1 Set2 cap' self' = Inr fig' \<longrightarrow>
            (\<forall>t\<in>set (traces fig). \<forall>t'\<in>set (traces fig'). row t = row t' \<longrightarrow>
               color t = color t' \<and> (sel' = sel \<longrightarrow> name t = name t'))"
  proof (intro allI impI ballI)
    fix fig fig' t t'
    assume h: "create_interactive_plot Set1 Set2 cap self = Inr fig
            \<and> create_interactive_plot Set1 Set2 cap' self' = Inr fig'"
      and t: "t \<in> set (traces fig)" and t': "t' \<in> set (traces fig')" and r: "row t = row t'"
    from h have k: "color t = palette ! ((row t - 1) mod length palette)"
      "name t = sel ! (row t - 1)"
      using key[OF _ t] unfolding sel_def by blast+
    from h have k': "color t' = palette ! ((row t' - 1) mod length palette)"
      "name t' = sel' ! (row t' - 1)"
      using key[OF _ t'] unfolding sel'_def by blast+
    show "color t = color t' \<and> (sel' = sel \<longrightarrow> name t = name t')"
      using k k' r by simp
  qed
  have f: "\<forall>fig fig' frame frame'. create_interactive_plot Set1 Set2 cap self = Inr fig
            \<and> create_interactive_plot Set1 Set2 cap' self' = Inr fig'
            \<and> data self = Some frame \<and> set (channels self) \<subseteq> set (columns frame)
            \<and> data self' = Some frame' \<and> set (channels self') \<subseteq> set (columns frame')
            \<and> sel' = sel \<longrightarrow>
            traces fig' = traces fig"
  proof (intro allI impI)
    fix fig fig' and frame frame' :: "'d dataframe"
    assume h: "create_interactive_plot Set1 Set2 cap self = Inr fig
            \<and> create_interactive_plot Set1 Set2 cap' self' = Inr fig'
            \<and> data self = Some frame \<and> set (channels self) \<subseteq> set (columns frame)
            \<and> data self' = Some frame' \<and> set (channels self') \<subseteq> set (columns frame')
            \<and> sel' = sel"
    have 1: "traces fig = map (panel sel) [0..<length sel]"
      using full[of cap self fig frame] h unfolding sel_def by blast
    have 2: "traces fig' = map (panel sel') [0..<length sel']"
      using full[of cap' self' fig' frame'] h unfolding sel'_def by blast
    show "traces fig' = traces fig" using 1 2 h by simp
  qed
  have g: "length (plotly_Set1 @ plotly_Set2) = 17"
    by (simp add: plotly_Set1_def plotly_Set2_def)
  show ?thesis using a b c d e f g by (intro conjI) assumption+
qed

theorem trace_color_determinism_witness:
  "\<exists>fig. create_interactive_plot plotly_Set1 plotly_Set2 None
      \<lparr> csv_file = ''rec.csv'',
        data = Some \<lparr> columns = ''Time'' # map (\<lambda>k. CHR ''E'' # replicate k CHR ''a'') [0..<18],
                      cells = () \<rparr>,
        channels = map (\<lambda>k. CHR ''E'' # replicate k CHR ''a'') [0..<18],
        sample_rate = PyInt 200 :: real number \<rparr> = Inr fig
     \<and> map color (traces fig) = plotly_Set1 @ plotly_Set2 @ [''rgb(228,26,28)'']
     \<and> map row (traces fig) = [1..<19]"
proof -
  let ?E = "map (\<lambda>k. CHR ''E'' # replicate k CHR ''a'') [0..<18]"
  let ?frame = "\<lparr> columns = ''Time'' # ?E, cells = () \<rparr>"
  let ?self = "\<lparr> csv_file = ''rec.csv'', data = Some ?frame, channels = ?E,
                 sample_rate = PyInt 200 :: real number \<rparr>"
  let ?sel = "channels_to_plot None (ordered_channels (categorize_channels ?self))"
  have sel: "?sel = ?E" by code_simp
  have n: "?E \<noteq> []" "length ?E < 68" "length ?E = 18" by simp_all
  have dc: "distinct (''Time'' # ?E)" by code_simp
  have pal: "plotly_Set1 @ plotly_Set2 \<noteq> []" by (simp add: plotly_Set1_def)
  have pc: "map (\<lambda>i. (plotly_Set1 @ plotly_Set2) ! (i mod length (plotly_Set1 @ plotly_Set2)))
              [0..<18] = plotly_Set1 @ plotly_Set2 @ [''rgb(228,26,28)'']"
    by code_simp
  have rw: "map (\<lambda>i. i + 1) [0..<18] = [1..<19::nat]" by code_simp
  note T = trace_color_determinism[where ?Set1.0 = plotly_Set1 and ?Set2.0 = plotly_Set2
      and cap = None and self = ?self and cap' = None and self' = ?self]
  have h: "?sel \<noteq> [] \<and> length ?sel < 68 \<and> plotly_Set1 @ plotly_Set2 \<noteq> []
             \<and> data ?self = Some ?frame \<and> distinct (columns ?frame)
             \<and> ''Time'' \<in> set (columns ?frame)"
    unfolding sel using n pal dc by simp
  from T[THEN conjunct2, THEN conjunct2, THEN conjunct2, THEN conjunct1, THEN spec, THEN mp,
         OF h]
  obtain fig where r: "create_interactive_plot plotly_Set1 plotly_Set2 None ?self = Inr fig"
    by blast
  have i: "create_interactive_plot plotly_Set1 plotly_Set2 None ?self = Inr fig
             \<and> data ?self = Some ?frame \<and> set (channels ?self) \<subseteq> set (columns ?frame)"
    using r by auto
  from T[THEN conjunct2, THEN conjunct1, THEN spec, THEN spec, THEN mp, OF i]
  have tr: "traces fig =
              map (\<lambda>i. \<lparr> name = ?sel ! i,
                         color = (plotly_Set1 @ plotly_Set2)
                                   ! (i mod length (plotly_Set1 @ plotly_Set2)),
                         row = i + 1 \<rparr>) [0..<length ?sel]"
    by blast
  have "map color (traces fig) = plotly_Set1 @ plotly_Set2 @ [''rgb(228,26,28)'']"
    unfolding tr sel n(3) using pc by (simp add: comp_def)
  moreover have "map row (traces fig) = [1..<19]"
    unfolding tr sel n(3) using rw by (simp add: comp_def)
  ultimately show ?thesis using r by blast
qed

text \<open>
  \<^bold>\<open>C9.\<close> A figure that the builder returns has as many rows as channels were selected
  (\<open>n_channels\<close>) and the height \<open>150 * n_channels + 100\<close>; with 5 channels the height is
  850.
\<close>

theorem canvas_height:
  assumes "create_interactive_plot Set1 Set2 cap self = Inr fig"
  shows "rows fig = length (channels_to_plot cap (ordered_channels (categorize_channels self)))
    \<and> height fig = 150 * rows fig + 100
    \<and> (rows fig = 5 \<longrightarrow> height fig = 850)"
  using create_interactive_plot_Inr[OF assms] by simp

theorem canvas_height_witness:
  "\<exists>fig. create_interactive_plot plotly_Set1 plotly_Set2 (Some 30)
           \<lparr> csv_file = ''rec.csv'',
             data = Some \<lparr> columns = [''Time'', ''Fp1'', ''Fp2'', ''C3'', ''C4'', ''Cz''],
                           cells = () \<rparr>,
             channels = [''Fp1'', ''Fp2'', ''C3'', ''C4'', ''Cz''],
             sample_rate = PyInt 200 :: real number \<rparr> = Inr fig
         \<and> rows fig = 5 \<and> height fig = 850"
proof -
  let ?self = "\<lparr> csv_file = ''rec.csv'',
             data = Some \<lparr> columns = [''Time'', ''Fp1'', ''Fp2'', ''C3'', ''C4'', ''Cz''],
                           cells = () \<rparr>,
             channels = [''Fp1'', ''Fp2'', ''C3'', ''C4'', ''Cz''],
             sample_rate = PyInt 200 :: real number \<rparr>"
  have sel: "channels_to_plot (Some 30) (ordered_channels (categorize_channels ?self))
               = [''Fp1'', ''Fp2'', ''C3'', ''C4'', ''Cz'']"
    by (simp add: categorize_channels_def is_ocular_def startswith_def ordered_channels_def
        channels_to_plot_def slice_to_def)
  obtain fig where f: "create_interactive_plot plotly_Set1 plotly_Set2 (Some 30)
                         ?self = Inr fig"
    using add_traces_succeeds[of "plotly_Set1 @ plotly_Set2"
        "\<lparr> columns = [''Time'', ''Fp1'', ''Fp2'', ''C3'', ''C4'', ''Cz''], cells = () \<rparr>"
        "[''Fp1'', ''Fp2'', ''C3'', ''C4'', ''Cz'']"]
    by (fastforce simp: create_interactive_plot_def Let_def sel plotly_Set1_def
        make_subplots_def)
  show ?thesis
    using canvas_height[OF f] f sel by simp
qed

text \<open>
  \<^bold>\<open>C10.\<close> \<open>max_channels = 0\<close> selects every channel, the builder does with it exactly what
  it does with \<open>max_channels = None\<close>, and when the classified channel list is not empty
  it does not raise the ValueError "No valid channels found to plot".
\<close>

theorem zero_cap_is_unset:
  fixes self :: "('f, 'd) EEGPlotter"
  shows "channels_to_plot (Some 0) ordered = ordered
    \<and> create_interactive_plot Set1 Set2 (Some 0) self
        = create_interactive_plot Set1 Set2 None self
    \<and> (ordered_channels (categorize_channels self) \<noteq> [] \<longrightarrow>
          create_interactive_plot Set1 Set2 (Some 0) self
            \<noteq> Inl (ValueError no_channels_message))"
proof -
  have a: "\<And>xs :: string list. channels_to_plot (Some 0) xs = xs"
    by (simp add: channels_to_plot_def)
  have b: "create_interactive_plot Set1 Set2 (Some 0) self
        = create_interactive_plot Set1 Set2 None self"
    by (simp add: create_interactive_plot_def channels_to_plot_def)
  have c: "ordered_channels (categorize_channels self) \<noteq> [] \<longrightarrow>
          create_interactive_plot Set1 Set2 (Some 0) self
            \<noteq> Inl (ValueError no_channels_message)"
    by (simp add: create_interactive_plot_empty a)
  show ?thesis using a b c by blast
qed

theorem zero_cap_is_unset_witness:
  "create_interactive_plot plotly_Set1 plotly_Set2 (Some 0)
     \<lparr> csv_file = ''rec.csv'',
       data = Some \<lparr> columns = [''Time'', ''Fp1''], cells = () \<rparr>,
       channels = [''Fp1''], sample_rate = PyInt 200 :: real number \<rparr>
   \<noteq> Inl (ValueError no_channels_message)"
proof -
  let ?self = "\<lparr> csv_file = ''rec.csv'',
       data = Some \<lparr> columns = [''Time'', ''Fp1''], cells = () \<rparr>,
       channels = [''Fp1''], sample_rate = PyInt 200 :: real number \<rparr>"
  have ne: "ordered_channels (categorize_channels ?self) \<noteq> []"
    by (simp add: categorize_channels_def is_ocular_def startswith_def ordered_channels_def)
  show ?thesis
    using zero_cap_is_unset[of "[]" plotly_Set1 plotly_Set2 ?self] ne by blast
qed

section \<open>The selection callback\<close>

text \<open>
  \<^bold>\<open>C4 (the code at the inputs of the claim).\<close> \<open>update_output\<close> answers "No region selected."
  to \<open>None\<close> and to the empty dictionary, and to an event with \<open>range.x = [a, b]\<close> the
  window formatted from \<open>a\<close> and \<open>b\<close> (or the OverflowError of the formatting). To a
  non-empty event without a usable x range it answers nothing: the \<open>if\<close>/\<open>elif\<close> has no
  \<open>else\<close>, so the function ends without \<open>return\<close> and yields \<open>None\<close>. Two such events
  are the box selection in a panel other than the first (its range is keyed \<open>x2\<close>, \<open>y2\<close>)
  and the lasso selection (\<open>lassoPoints\<close>, no \<open>range\<close>).
\<close>

theorem update_output_cases:
  "update_output fmt None = Inr (Some ''No region selected.'')
   \<and> update_output fmt (Some []) = Inr (Some ''No region selected.'')
   \<and> update_output fmt (Some [(''range'', JDict [(''x'', JList [JNum a, JNum b])])])
       = (case fmt a of
            None \<Rightarrow> Inl OverflowError
          | Some x \<Rightarrow>
              (case fmt b of
                 None \<Rightarrow> Inl OverflowError
               | Some y \<Rightarrow>
                   Inr (Some (''Selected time window: '' @ x @ en_dash @ y @ '' seconds''))))
   \<and> update_output fmt
         (Some [(''points'', JList []),
                (''range'', JDict [(''x2'', JList [JNum a, JNum b]),
                                   (''y2'', JList [JNum c, JNum d])])])
       = Inr None
   \<and> update_output fmt
         (Some [(''points'', JList []),
                (''lassoPoints'', JDict [(''x'', JList [JNum a, JNum b]),
                                         (''y'', JList [JNum c, JNum d])])])
       = Inr None"
  by (simp add: update_output_def unpack_pair_def split: option.splits)

end
